theory Spec2Isabelle
  imports Complex_Main "HOL-Library.Multiset"
begin

section \<open>Data model: rows, frames, errors\<close>

text \<open>
  A row of the metadata table. \<open>label\<close> is the index label pandas attaches to the row;
  \<open>id_col\<close>, \<open>prod_id\<close>, \<open>plan_id\<close> are the key columns kept by \<open>__init__\<close>; \<open>target\<close> is the
  value of the column named by \<open>self.target\<close>; \<open>weight\<close> is the column \<open>"weight"\<close> that
  \<open>sample_prods\<close> writes (\<open>None\<close>: the column is absent). The text attribute columns are
  carried along untouched by every operation below and are left out. Scores are exact reals:
  NaN and float rounding are outside the model.
\<close>

record row =
  label :: int
  id_col :: int
  prod_id :: int
  plan_id :: int
  target :: real
  weight :: "real option"

type_synonym frame = "row list"

datatype verr =
    Empty_population
  | Larger_than_population
  | Negative_weight
  | Zero_weight_sum
  | Fewer_nonzero_than_size
  | Not_one_element

datatype error =
    ValueError verr
  | KeyError
  | NotImplementedError
  | AssertionError
  | AttributeError
  | TypeError
  | Cv2Error

datatype result = Series row | DataFrame frame | NoneValue

text \<open>The cells of a row without its index label.\<close>

definition cells :: "row \<Rightarrow> int \<times> int \<times> int \<times> real \<times> real option" where
  "cells r = (id_col r, prod_id r, plan_id r, target r, weight r)"

section \<open>The random source\<close>

text \<open>
  numpy's generator is outside the repository. Its choices are an argument of the model:
  \<open>rng_uniform g i\<close> is the \<open>i\<close>-th value of \<open>np.random.uniform(size=len(plan))\<close>, and the three
  lists drive the calls of \<open>DataFrame.sample\<close>: \<open>rng_draw\<close> the first call of a branch,
  \<open>rng_pick\<close> the \<open>sample(1)\<close> that settles a tie, \<open>rng_negs\<close> the draw of the negatives.
\<close>

record rng =
  rng_uniform :: "nat \<Rightarrow> real"
  rng_draw :: "nat list"
  rng_pick :: "nat list"
  rng_negs :: "nat list"


text \<open>
  Drawing \<open>k\<close> elements without replacement: each step takes the candidate at position
  \<open>c mod length xs\<close> for the next choice \<open>c\<close> (0 when the choices have run out) and removes it.
\<close>

fun rs_choice :: "nat \<Rightarrow> 'a list \<Rightarrow> nat list \<Rightarrow> 'a list" where
  "rs_choice 0 xs cs = []"
| "rs_choice (Suc k) xs cs =
     (if xs = [] then []
      else (let i = (case cs of [] \<Rightarrow> 0 | c # _ \<Rightarrow> c) mod length xs
            in xs ! i # rs_choice k (take i xs @ drop (Suc i) xs) (tl cs)))"

section \<open>The pandas operations used by the sampler\<close>

text \<open>
  \<open>DataFrame.sample(n, weights, replace=False)\<close>. With weights pandas refuses a negative
  weight and a zero sum, numpy refuses a sample larger than the population and, with
  probabilities, one larger than the number of non-zero entries; a row of weight 0 is never
  drawn. The result keeps the order of the draw.
\<close>

definition df_sample :: "frame \<Rightarrow> nat \<Rightarrow> real list option \<Rightarrow> nat list \<Rightarrow> error + frame" where
  "df_sample f n weights cs =
     (case weights of
        None \<Rightarrow>
          if f = [] \<and> 0 < n then Inl (ValueError Empty_population)
          else if length f < n then Inl (ValueError Larger_than_population)
          else Inr (rs_choice n f cs)
      | Some ws \<Rightarrow>
          if list_ex (\<lambda>w. w < 0) ws then Inl (ValueError Negative_weight)
          else if sum_list ws = 0 then Inl (ValueError Zero_weight_sum)
          else if length f < n then Inl (ValueError Larger_than_population)
          else if length (filter (\<lambda>w. 0 < w) ws) < n
            then Inl (ValueError Fewer_nonzero_than_size)
          else Inr (rs_choice n (map fst (filter (\<lambda>rw. 0 < snd rw) (zip f ws))) cs))"

text \<open>Reading the column \<open>"weight"\<close>: a \<open>KeyError\<close> when it is absent.\<close>

definition col_weight :: "frame \<Rightarrow> error + real list" where
  "col_weight f = (case those (map weight f) of None \<Rightarrow> Inl KeyError | Some ws \<Rightarrow> Inr ws)"

text \<open>\<open>plan["weight"] = values\<close> and \<open>drop("weight", axis=1)\<close>.\<close>

definition set_weight :: "frame \<Rightarrow> real list \<Rightarrow> frame" where
  "set_weight f ws = map (\<lambda>rw. (fst rw)\<lparr>weight := Some (snd rw)\<rparr>) (zip f ws)"

definition drop_weight :: "frame \<Rightarrow> frame" where
  "drop_weight f = map (\<lambda>r. r\<lparr>weight := None\<rparr>) f"

text \<open>\<open>Series.max()\<close>: nothing (NaN) on an empty column.\<close>

definition col_max :: "real list \<Rightarrow> real option" where
  "col_max xs = (if xs = [] then None else Some (Max (set xs)))"

text \<open>\<open>f[f[col] == f[col].max()]\<close> for a column with the values \<open>xs\<close>.\<close>

definition keep_max :: "real list \<Rightarrow> frame \<Rightarrow> frame" where
  "keep_max xs f =
     (case col_max xs of
        None \<Rightarrow> []
      | Some m \<Rightarrow> map fst (filter (\<lambda>rx. snd rx = m) (zip f xs)))"

text \<open>\<open>reset_index(drop=True)\<close>, also the effect of \<open>ignore_index=True\<close>.\<close>

definition reset_index :: "frame \<Rightarrow> frame" where
  "reset_index f = map (\<lambda>ri. (fst ri)\<lparr>label := int (snd ri)\<rparr>) (zip f [0..<length f])"

text \<open>
  \<open>sort_values(by=col, ascending=False, ignore_index=True)\<close> for a column with the values
  \<open>ks\<close>. Rows of equal key keep their order here; the theorems below rely only on the result
  being ordered and holding the same rows.
\<close>

definition sort_desc :: "real list \<Rightarrow> frame \<Rightarrow> frame" where
  "sort_desc ks f = reset_index (map fst (sort_key (\<lambda>rk. - snd rk) (zip f ks)))"

definition sort_by_target :: "frame \<Rightarrow> frame" where
  "sort_by_target f = sort_desc (map target f) f"

text \<open>\<open>DataFrame.squeeze()\<close>: a frame of one row becomes that row.\<close>

fun squeeze :: "frame \<Rightarrow> result" where
  "squeeze [r] = Series r"
| "squeeze f = DataFrame f"

section \<open>\<open>_PlanBaseDataset.sample_prods\<close>\<close>

text \<open>
  The weights written to the column \<open>"weight"\<close>:
  \<open>plan[self.target].values + np.random.uniform(size=len(plan)) * 1e-8\<close>.
\<close>

definition noisy_weights :: "frame \<Rightarrow> rng \<Rightarrow> real list" where
  "noisy_weights plan g =
     map (\<lambda>ri. target (fst ri) + rng_uniform g (snd ri) * (1 / 100000000))
       (zip plan [0..<length plan])"

text \<open>
  The weights of the negatives' draw:
  \<open>plan_except_pos["weight"].max() - plan_except_pos["weight"]\<close>.
\<close>

definition neg_weights :: "real list \<Rightarrow> real list" where
  "neg_weights ws = (case col_max ws of None \<Rightarrow> [] | Some m \<Rightarrow> map (\<lambda>w. m - w) ws)"

text \<open>
  \<open>k\<close> rows drawn by weight, the rows of greatest weight among them kept
  (\<open>sample(n=k, weights="weight")\<close>, then \<open>p[p["weight"] == p["weight"].max()]\<close>);
  \<open>plan\<close> already carries the column.
\<close>

definition draw_max :: "nat \<Rightarrow> frame \<Rightarrow> rng \<Rightarrow> error + frame" where
  "draw_max k plan g =
     (case col_weight plan of
        Inl e \<Rightarrow> Inl e
      | Inr ws \<Rightarrow>
          (case df_sample plan k (Some ws) (rng_draw g) of
             Inl e \<Rightarrow> Inl e
           | Inr sampled \<Rightarrow>
               (case col_weight sampled of
                  Inl e \<Rightarrow> Inl e
                | Inr pws \<Rightarrow> Inr (keep_max pws sampled))))"

text \<open>The branch \<open>n == 1\<close>, \<open>"weighted"\<close>, after the column is written (lines 181 to 187).\<close>

definition weighted_one :: "frame \<Rightarrow> rng \<Rightarrow> error + result" where
  "weighted_one plan g =
     (case draw_max 7 plan g of
        Inl e \<Rightarrow> Inl e
      | Inr sampled \<Rightarrow>
          (case df_sample (drop_weight sampled) 1 None (rng_pick g) of
             Inl e \<Rightarrow> Inl e
           | Inr one \<Rightarrow> Inr (squeeze one)))"

text \<open>The branch \<open>n == 1\<close>, \<open>"sequential"\<close> (lines 190 and 191).\<close>

definition sequential_one :: "frame \<Rightarrow> rng \<Rightarrow> error + result" where
  "sequential_one plan g =
     (case df_sample (keep_max (map target plan) plan) 1 None (rng_pick g) of
        Inl e \<Rightarrow> Inl e
      | Inr sampled \<Rightarrow> Inr (squeeze sampled))"

text \<open>
  The positive row of the branch \<open>n > 1\<close>, \<open>"weighted"\<close> (lines 219 to 222): five rows
  drawn by weight, one of those of greatest weight taken by \<open>sample(1)\<close>.
\<close>

definition draw_positive :: "frame \<Rightarrow> rng \<Rightarrow> error + frame" where
  "draw_positive plan g =
     (case draw_max 5 plan g of
        Inl e \<Rightarrow> Inl e
      | Inr ties \<Rightarrow> df_sample ties 1 None (rng_pick g))"

text \<open>
  The branch \<open>n > 1\<close>, \<open>"weighted"\<close>, after the column is written (lines 219 to 232).
  \<open>pos_prod.index.item()\<close> is the label of the one positive row, and \<open>plan.drop\<close> removes
  every row carrying that label.
\<close>

definition weighted_many :: "frame \<Rightarrow> int \<Rightarrow> rng \<Rightarrow> error + result" where
  "weighted_many plan n g =
     (case draw_positive plan g of
        Inl e \<Rightarrow> Inl e
      | Inr pos_prod \<Rightarrow>
          (case pos_prod of
             [p] \<Rightarrow>
               (let plan_except_pos = filter (\<lambda>r. label r \<noteq> label p) plan in
                case col_weight plan_except_pos of
                  Inl e \<Rightarrow> Inl e
                | Inr rws \<Rightarrow>
                    (case df_sample plan_except_pos (nat (n - 1))
                            (Some (neg_weights rws)) (rng_negs g) of
                       Inl e \<Rightarrow> Inl e
                     | Inr neg_prods \<Rightarrow>
                         (let prods = pos_prod @ neg_prods in
                          case col_weight prods of
                            Inl e \<Rightarrow> Inl e
                          | Inr cws \<Rightarrow>
                              Inr (DataFrame (drop_weight (sort_desc cws prods))))))
           | _ \<Rightarrow> Inl (ValueError Not_one_element)))"

text \<open>
  \<open>sample_prods(plan, n)\<close>. The second component of the value is the content, after the
  call, of the frame object the caller passed as \<open>plan\<close>: the weighted branches assign to
  \<open>plan["weight"]\<close>, which writes to that object, also when the call then raises.
  \<open>self.target in prods.columns\<close> (line 205) holds for every frame of the model.
\<close>

definition sample_prods :: "string \<Rightarrow> frame \<Rightarrow> int \<Rightarrow> rng \<Rightarrow> (error + result) \<times> frame" where
  "sample_prods sampling_method plan n g =
     (if n = - 1 then (Inr (DataFrame (sort_by_target plan)), plan)
      else if n = 1 then
        (if sampling_method = ''random'' then
           (case df_sample plan 1 None (rng_draw g) of
              Inl e \<Rightarrow> Inl e
            | Inr sampled \<Rightarrow> Inr (squeeze sampled), plan)
         else if sampling_method = ''weighted'' then
           (let plan' = set_weight plan (noisy_weights plan g)
            in (weighted_one plan' g, plan'))
         else if sampling_method = ''sequential'' then (sequential_one plan g, plan)
         else (Inl NotImplementedError, plan))
      else if 1 < n then
        (if int (length plan) = n then (Inr (DataFrame (sort_by_target plan)), plan)
         else if sampling_method = ''random'' then
           (case df_sample plan (nat n) None (rng_draw g) of
              Inl e \<Rightarrow> Inl e
            | Inr prods \<Rightarrow> Inr (DataFrame (sort_by_target prods)), plan)
         else if sampling_method = ''weighted'' then
           (let plan' = set_weight plan (noisy_weights plan g)
            in (weighted_many plan' n g, plan'))
         else if sampling_method = ''sequential'' then
           (Inr (DataFrame (take (nat n) (sort_by_target plan))), plan)
         else (Inl NotImplementedError, plan))
      else (Inr NoneValue, plan))"

section \<open>The dataset objects\<close>

text \<open>
  The five classes built on \<open>_PlanBaseDataset\<close>. DataFrame objects live in a heap, so that
  two names of one object see each other's writes; an address never written holds the empty
  frame. \<open>warnings\<close> collects the two counts of each warning issued.
\<close>

datatype variant =
    SemanticMatchingDataset
  | PreferenceDiscrimDataset
  | PDAblation2Dataset
  | SemanticMatchingEvalDataset
  | PreferenceDiscrimEvalDataset

type_synonym addr = nat

record dataset =
  variant :: variant
  heap :: "addr \<Rightarrow> frame"
  next_addr :: addr
  meta :: addr
  meta_access_by_plan_id :: "(int \<times> addr) list"
  unique_plan_ids :: "int list"
  sampling_method :: string
  discrim_size :: int
  warnings :: "(nat \<times> nat) list"

text \<open>A new DataFrame object.\<close>

definition new_frame :: "frame \<Rightarrow> dataset \<Rightarrow> addr \<times> dataset" where
  "new_frame f ds =
     (next_addr ds, ds\<lparr>heap := (heap ds)(next_addr ds := f), next_addr := Suc (next_addr ds)\<rparr>)"

text \<open>
  \<open>meta.groupby("plan_id")\<close>: the groups in ascending order of the key, each with the rows
  of that key in table order and under their labels.
\<close>

definition groupby_plan_id :: "frame \<Rightarrow> (int \<times> frame) list" where
  "groupby_plan_id f =
     map (\<lambda>k. (k, filter (\<lambda>r. plan_id r = k) f)) (sort (remdups (map plan_id f)))"

text \<open>\<open>dict(tuple(...))\<close>: every group is an object of its own.\<close>

fun store_groups :: "(int \<times> frame) list \<Rightarrow> dataset \<Rightarrow> dataset" where
  "store_groups [] ds = ds"
| "store_groups (kf # gs) ds =
     (let ads = new_frame (snd kf) ds
      in store_groups gs
           ((snd ads)\<lparr>meta_access_by_plan_id :=
              meta_access_by_plan_id (snd ads) @ [(fst kf, fst ads)]\<rparr>))"

text \<open>\<open>Series.unique()\<close>: the values in order of first appearance.\<close>

definition unique :: "int list \<Rightarrow> int list" where
  "unique xs = rev (remdups (rev xs))"

text \<open>
  \<open>__len__\<close>: the two semantic-matching classes count the rows of \<open>self.meta\<close>, the three
  discrimination classes count \<open>self.unique_plan_ids\<close>.
\<close>

definition len :: "dataset \<Rightarrow> nat" where
  "len ds =
     (case variant ds of
        SemanticMatchingDataset \<Rightarrow> length (heap ds (meta ds))
      | SemanticMatchingEvalDataset \<Rightarrow> length (heap ds (meta ds))
      | _ \<Rightarrow> length (unique_plan_ids ds))"

text \<open>
  \<open>verify_meta_data\<close>; \<open>isfile p\<close> says that \<open>{img_dir}/{p}.jpg\<close> exists. \<open>DataFrame.drop\<close>
  removes every row whose label is listed and returns a new object, to which \<open>self.meta\<close>
  is rebound.
\<close>

definition verify_meta_data :: "(int \<Rightarrow> bool) \<Rightarrow> dataset \<Rightarrow> bool \<times> dataset" where
  "verify_meta_data isfile ds =
     (let cannot_found_samples = filter (\<lambda>r. \<not> isfile (prod_id r)) (heap ds (meta ds))
      in if 0 < length cannot_found_samples then
           (let num_rows_origin = len ds;
                row_indices = map label cannot_found_samples;
                ads = new_frame
                        (reset_index
                           (filter (\<lambda>r. label r \<notin> set row_indices) (heap ds (meta ds)))) ds;
                ds' = (snd ads)\<lparr>meta := fst ads\<rparr>;
                num_rows_dropped = len ds'
            in (False, ds'\<lparr>warnings := warnings ds' @ [(num_rows_origin, num_rows_dropped)]\<rparr>))
         else (True, ds))"

text \<open>
  \<open>__init__\<close> of a class \<open>v\<close>. Every frame of the model has the columns the first and the
  last two assertions ask for, so only the assertion on \<open>sampling_method\<close> can fail.
\<close>

definition init ::
  "variant \<Rightarrow> frame \<Rightarrow> string \<Rightarrow> int \<Rightarrow> (int \<Rightarrow> bool) \<Rightarrow> error + dataset" where
  "init v meta_frame strategy dsize isfile =
     (if strategy \<notin> set [''weighted'', ''random'', ''sequential''] then Inl AssertionError
      else
        (let ds0 = \<lparr>variant = v, heap = (\<lambda>_. []), next_addr = 0, meta = 0,
                    meta_access_by_plan_id = [], unique_plan_ids = [],
                    sampling_method = strategy, discrim_size = dsize, warnings = []\<rparr>;
             ads = new_frame meta_frame ds0;
             ds1 = (snd ads)\<lparr>meta := fst ads\<rparr>;
             ds2 = store_groups (groupby_plan_id meta_frame) ds1;
             ds3 = ds2\<lparr>unique_plan_ids := unique (map plan_id meta_frame)\<rparr>
         in Inr (snd (verify_meta_data isfile ds3))))"

text \<open>\<open>sample_prods\<close> called on the object at address \<open>a\<close>.\<close>

definition sample_prods_at :: "dataset \<Rightarrow> addr \<Rightarrow> int \<Rightarrow> rng \<Rightarrow> (error + result) \<times> dataset" where
  "sample_prods_at ds a n g =
     (let rf = sample_prods (sampling_method ds) (heap ds a) n g
      in (fst rf, ds\<lparr>heap := (heap ds)(a := snd rf)\<rparr>))"

text \<open>
  \<open>load_prod_img\<close>: \<open>cv2.imread\<close> gives \<open>None\<close> for a missing file and \<open>cv2.cvtColor\<close> then
  raises. The image read is stood for by the product id.
\<close>

definition load_prod_img :: "(int \<Rightarrow> bool) \<Rightarrow> int \<Rightarrow> error + int" where
  "load_prod_img isfile p = (if isfile p then Inr p else Inl Cv2Error)"

text \<open>The loop over \<open>iterrows()\<close>.\<close>

fun load_rows :: "(int \<Rightarrow> bool) \<Rightarrow> frame \<Rightarrow> error + int list" where
  "load_rows isfile [] = Inr []"
| "load_rows isfile (r # rs) =
     (case load_prod_img isfile (prod_id r) of
        Inl e \<Rightarrow> Inl e
      | Inr i \<Rightarrow> (case load_rows isfile rs of Inl e \<Rightarrow> Inl e | Inr js \<Rightarrow> Inr (i # js)))"

text \<open>
  \<open>__getitem__(plan_id)\<close>, as far as sampling and image loading go (text preprocessing and
  augmentation are outside the repository): the value is the list of the images loaded.
  The semantic-matching classes hand the group object of the index itself to
  \<open>sample_prods\<close>; the discrimination classes hand it a new object made by
  \<open>reset_index(drop=True)\<close>.
\<close>

definition getitem ::
  "(int \<Rightarrow> bool) \<Rightarrow> dataset \<Rightarrow> int \<Rightarrow> rng \<Rightarrow> (error + int list) \<times> dataset" where
  "getitem isfile ds k g =
     (if k \<notin> set (unique_plan_ids ds) then (Inl AssertionError, ds)
      else
        (case map_of (meta_access_by_plan_id ds) k of
           None \<Rightarrow> (Inl KeyError, ds)
         | Some a \<Rightarrow>
             if variant ds = SemanticMatchingDataset \<or> variant ds = SemanticMatchingEvalDataset
             then
               (let rd = sample_prods_at ds a 1 g
                in (case fst rd of
                      Inl e \<Rightarrow> Inl e
                    | Inr (Series r) \<Rightarrow>
                        (case load_prod_img isfile (prod_id r) of
                           Inl e \<Rightarrow> Inl e
                         | Inr i \<Rightarrow> Inr [i])
                    | Inr (DataFrame f) \<Rightarrow> Inl Cv2Error
                    | Inr NoneValue \<Rightarrow> Inl TypeError,
                    snd rd))
             else
               (let ads = new_frame (reset_index (heap ds a)) ds;
                    rd = sample_prods_at (snd ads) (fst ads) (discrim_size ds) g
                in (case fst rd of
                      Inl e \<Rightarrow> Inl e
                    | Inr (DataFrame f) \<Rightarrow> load_rows isfile f
                    | Inr (Series r) \<Rightarrow> Inl AttributeError
                    | Inr NoneValue \<Rightarrow> Inl AttributeError,
                    snd rd))))"

section \<open>Notions used in the statements\<close>


text \<open>Example inputs: rows of plan 1, and a generator that returns 0 everywhere.\<close>

definition example_row :: "int \<Rightarrow> int \<Rightarrow> real \<Rightarrow> row" where
  "example_row l p t =
     \<lparr>label = l, id_col = l, prod_id = p, plan_id = 1, target = t, weight = None\<rparr>"

definition rng0 :: rng where
  "rng0 = \<lparr>rng_uniform = (\<lambda>_. 0), rng_draw = [], rng_pick = [], rng_negs = []\<rparr>"

definition plan1 :: frame where
  "plan1 = [example_row 0 10 1]"

definition plan3 :: frame where
  "plan3 = [example_row 0 10 1, example_row 1 11 3, example_row 2 12 2]"

definition plan5 :: frame where
  "plan5 = [example_row 0 10 1, example_row 1 11 1, example_row 2 12 1, example_row 3 13 1,
            example_row 4 14 1]"

definition plan7 :: frame where
  "plan7 = [example_row 0 10 1, example_row 1 11 2, example_row 2 12 3, example_row 3 13 4,
            example_row 4 14 5, example_row 5 15 6, example_row 6 16 7]"

text \<open>
  \<open>self.meta_access_by_plan_id[k]\<close> (empty when the key is absent), and the product ids held
  by the groups of the index.
\<close>

definition group_of :: "int \<Rightarrow> dataset \<Rightarrow> frame" where
  "group_of k ds = (case map_of (meta_access_by_plan_id ds) k of None \<Rightarrow> [] | Some a \<Rightarrow> heap ds a)"

definition index_prod_ids :: "dataset \<Rightarrow> int list" where
  "index_prod_ids ds =
     concat (map (\<lambda>ka. map prod_id (heap ds (snd ka))) (meta_access_by_plan_id ds))"

text \<open>A call of \<open>__getitem__\<close> on a dataset just built.\<close>

definition first_item ::
  "(int \<Rightarrow> bool) \<Rightarrow> error + dataset \<Rightarrow> int \<Rightarrow> rng \<Rightarrow> (error + int list) \<times> (error + dataset)" where
  "first_item isfile built k g =
     (case built of
        Inl e \<Rightarrow> (Inl e, Inl e)
      | Inr ds \<Rightarrow> (fst (getitem isfile ds k g), Inr (snd (getitem isfile ds k g))))"

text \<open>Example image directories: every image present, and all but that of product 11.\<close>

definition every_image :: "int \<Rightarrow> bool" where
  "every_image p = True"

definition all_but_11 :: "int \<Rightarrow> bool" where
  "all_but_11 p = (p \<noteq> 11)"

section \<open>The random source reaches every draw\<close>

text \<open>
  \<open>rs_choice\<close> returns only selections without replacement (\<open>rs_choice_sound\<close> below), and
  every ordered selection of \<open>k\<close> different positions is returned for some choices.
\<close>

lemma nth_without:
  assumes "p < length xs" and "q < length xs" and "q \<noteq> p"
  shows "(take p xs @ drop (Suc p) xs) ! (if q < p then q else q - 1) = xs ! q"
proof (cases "q < p")
  case True
  with assms(1) show ?thesis by (simp add: nth_append)
next
  case False
  with assms(3) have pq: "p < q" by simp
  then have "\<not> q - 1 < p" by simp
  moreover from pq have "Suc p + (q - 1 - p) = q" by simp
  ultimately show ?thesis using False assms(1,2) by (simp add: nth_append min_def)
qed

lemma rs_choice_any_length:
  "length ps = k \<Longrightarrow> distinct ps \<Longrightarrow> \<forall>p \<in> set ps. p < length xs \<Longrightarrow>
   \<exists>cs. rs_choice k xs cs = map (nth xs) ps"
proof (induction k arbitrary: ps xs)
  case 0
  then show ?case by simp
next
  case (Suc k)
  from Suc.prems(1) obtain p ps0 where ps: "ps = p # ps0" and l0: "length ps0 = k"
    by (cases ps) simp_all
  define sh where "sh = (\<lambda>q. if q < p then q else q - 1)"
  define rest where "rest = take p xs @ drop (Suc p) xs"
  from Suc.prems ps have p: "p < length xs" and notin: "p \<notin> set ps0" and d: "distinct ps0"
    and bound: "\<forall>q \<in> set ps0. q < length xs" by simp_all
  have "inj_on sh (set ps0)"
  proof (rule inj_onI)
    fix a b
    assume ab: "a \<in> set ps0" "b \<in> set ps0" "sh a = sh b"
    with notin have "a \<noteq> p" "b \<noteq> p" by auto
    with ab(3) show "a = b" by (auto simp: sh_def split: if_splits)
  qed
  with d have d': "distinct (map sh ps0)" by (simp add: distinct_map)
  have lr: "length rest = length xs - 1" using p by (simp add: rest_def)
  have b': "\<forall>q \<in> set (map sh ps0). q < length rest"
  proof
    fix q'
    assume "q' \<in> set (map sh ps0)"
    then obtain q where q: "q \<in> set ps0" "q' = sh q" by auto
    with notin bound have "q \<noteq> p" "q < length xs" by auto
    with p q(2) lr show "q' < length rest" by (auto simp: sh_def)
  qed
  have l': "length (map sh ps0) = k" using l0 by simp
  from Suc.IH [OF l' d' b'] obtain cs where
    cs: "rs_choice k rest cs = map (nth rest) (map sh ps0)" by blast
  have same: "map (nth rest) (map sh ps0) = map (nth xs) ps0"
  proof (simp only: map_map, rule map_cong [OF refl])
    fix q
    assume "q \<in> set ps0"
    with notin bound have q: "q < length xs" "q \<noteq> p" by auto
    show "(nth rest \<circ> sh) q = xs ! q"
      unfolding rest_def sh_def comp_def using p q by (rule nth_without)
  qed
  from p have ne: "xs \<noteq> []" by auto
  have "rs_choice (Suc k) xs (p # cs) = xs ! p # rs_choice k rest cs"
    using ne p by (simp add: Let_def rest_def)
  with cs same ps have "rs_choice (Suc k) xs (p # cs) = map (nth xs) ps" by simp
  then show ?case ..
qed

section \<open>Facts about the frame operations\<close>

lemma reset_index_map:
  assumes "\<And>r i. h (r\<lparr>label := i\<rparr>) = h r"
  shows "map h (reset_index f) = map h f"
  by (rule nth_equalityI) (simp_all add: reset_index_def assms)

lemma length_reset_index: "length (reset_index f) = length f"
  by (simp add: reset_index_def)

lemma cells_reset_index: "map cells (reset_index f) = map cells f"
  by (rule reset_index_map) (simp add: cells_def)

lemma target_reset_index: "map target (reset_index f) = map target f"
  by (rule reset_index_map) simp

lemma prod_id_reset_index: "map prod_id (reset_index f) = map prod_id f"
  by (rule reset_index_map) simp

lemma label_reset_index: "map label (reset_index f) = map int [0..<length f]"
  by (rule nth_equalityI) (simp_all add: reset_index_def)

lemma mset_sorted_rows:
  assumes "length ks = length f"
  shows "mset (map fst (sort_key (\<lambda>rk. - snd rk) (zip f ks))) = mset f"
proof -
  have "mset (map fst (sort_key (\<lambda>rk. - snd rk) (zip f ks))) = mset (map fst (zip f ks))"
    by (simp only: mset_map mset_sort)
  with assms show ?thesis by simp
qed

lemma length_sort_desc: "length ks = length f \<Longrightarrow> length (sort_desc ks f) = length f"
  by (simp add: sort_desc_def length_reset_index)

lemma cells_sort_desc:
  assumes "length ks = length f"
  shows "mset (map cells (sort_desc ks f)) = mset (map cells f)"
proof -
  have "map cells (sort_desc ks f) = map cells (map fst (sort_key (\<lambda>rk. - snd rk) (zip f ks)))"
    by (simp only: sort_desc_def cells_reset_index)
  then show ?thesis using mset_sorted_rows [OF assms] by (metis mset_map)
qed

lemma sorted_by_target: "sorted_wrt (\<lambda>a b. target b \<le> target a) (sort_by_target f)"
proof -
  let ?s = "sort_key (\<lambda>rk. - snd rk) (zip f (map target f))"
  have key: "\<And>rk. rk \<in> set ?s \<Longrightarrow> snd rk = target (fst rk)"
    by (auto simp: in_set_zip)
  have "sorted (map (\<lambda>rk. - snd rk) ?s)" by (rule sorted_sort_key)
  then have "sorted_wrt (\<lambda>a b. snd b \<le> snd a) ?s"
    by (simp add: sorted_wrt_map)
  then have "sorted_wrt (\<lambda>a b. target (fst b) \<le> target (fst a)) ?s"
    by (rule sorted_wrt_mono_rel [rotated]) (simp add: key)
  then have "sorted_wrt (\<lambda>a b. b \<le> a) (map target (map fst ?s))"
    by (simp add: sorted_wrt_map)
  then have "sorted_wrt (\<lambda>a b. b \<le> a) (map target (sort_by_target f))"
    by (simp only: sort_by_target_def sort_desc_def target_reset_index)
  then show ?thesis by (simp add: sorted_wrt_map)
qed



lemma filter_zip_map:
  "map fst (filter (\<lambda>rx. snd rx = m) (zip f (map k f))) = filter (\<lambda>r. k r = m) f"
  by (induction f) simp_all

lemma keep_max_own:
  "f \<noteq> [] \<Longrightarrow> keep_max (map k f) f = filter (\<lambda>r. k r = Max (k ` set f)) f"
  by (simp add: keep_max_def col_max_def filter_zip_map)

lemma rs_choice_one:
  "xs \<noteq> [] \<Longrightarrow>
   rs_choice (Suc 0) xs cs = [xs ! ((case cs of [] \<Rightarrow> 0 | c # _ \<Rightarrow> c) mod length xs)]"
  by (simp add: Let_def)

lemma df_sample_one:
  assumes "f \<noteq> []"
  shows "\<exists>r \<in> set f. df_sample f 1 None cs = Inr [r]"
proof -
  let ?i = "(case cs of [] \<Rightarrow> 0 | c # _ \<Rightarrow> c) mod length f"
  from assms have "?i < length f" by simp
  then have "f ! ?i \<in> set f" by (rule nth_mem)
  moreover from assms have "df_sample f 1 None cs = Inr [f ! ?i]"
    by (simp add: df_sample_def rs_choice_one Suc_leI)
  ultimately show ?thesis by blast
qed

lemma df_sample_single: "df_sample [r] 1 None cs = Inr [r]"
  by (simp add: df_sample_def Let_def)

lemma top_rows_nonempty:
  assumes "f \<noteq> []"
  shows "filter (\<lambda>r. k r = Max (k ` set f)) f \<noteq> []"
proof -
  from assms have "Max (k ` set f) \<in> k ` set f" by (intro Max_in) simp_all
  then obtain r where "r \<in> set f" "k r = Max (k ` set f)" by auto
  then show ?thesis by (auto simp: filter_empty_conv)
qed

section \<open>Sequential sampling of one row\<close>

text \<open>
  Claim C6. Under \<open>"sequential"\<close> with \<open>n = 1\<close> on a non-empty group, the call returns a row of
  the group whose target is the maximum of the group's targets and leaves the group as it
  was; and when exactly one row attains the maximum, every call (whatever the generator
  does) returns that same row.
\<close>

theorem sequential_one_is_maximum:
  assumes "plan \<noteq> []"
  shows "\<exists>r \<in> set plan.
           sample_prods ''sequential'' plan 1 g = (Inr (Series r), plan)
         \<and> target r = Max (target ` set plan)
         \<and> (length (filter (\<lambda>x. target x = Max (target ` set plan)) plan) = 1
              \<longrightarrow> (\<forall>g'. sample_prods ''sequential'' plan 1 g' = (Inr (Series r), plan)))"
proof -
  let ?top = "filter (\<lambda>x. target x = Max (target ` set plan)) plan"
  have run: "sample_prods ''sequential'' plan 1 h
      = (case df_sample ?top 1 None (rng_pick h) of
           Inl e \<Rightarrow> Inl e | Inr sampled \<Rightarrow> Inr (squeeze sampled), plan)" for h
    using assms by (simp add: sample_prods_def sequential_one_def keep_max_own)
  from assms have "?top \<noteq> []" by (rule top_rows_nonempty)
  then obtain r where r: "r \<in> set ?top" "df_sample ?top 1 None (rng_pick g) = Inr [r]"
    using df_sample_one by blast
  from r(1) have mem: "r \<in> set plan" and mx: "target r = Max (target ` set plan)" by simp_all
  have here: "sample_prods ''sequential'' plan 1 g = (Inr (Series r), plan)"
    using r(2) by (simp add: run)
  have "\<forall>g'. sample_prods ''sequential'' plan 1 g' = (Inr (Series r), plan)"
    if one: "length ?top = 1"
  proof
    fix g'
    from one obtain x where x: "?top = [x]"
      by (cases ?top) simp_all
    with r(1) have "x = r" by simp
    with x show "sample_prods ''sequential'' plan 1 g' = (Inr (Series r), plan)"
      using df_sample_single [of r "rng_pick g'"] by (simp add: run)
  qed
  with mem mx here show ?thesis by blast
qed



theorem sequential_one_is_maximum_witness:
  "plan3 \<noteq> []
   \<and> length (filter (\<lambda>x. target x = Max (target ` set plan3)) plan3) = 1
   \<and> (\<forall>g'. sample_prods ''sequential'' plan3 1 g' = (Inr (Series (example_row 1 11 3)), plan3))"
proof -
  have ne: "plan3 \<noteq> []" by (simp add: plan3_def)
  have mx: "Max (target ` set plan3) = 3" by (simp add: plan3_def example_row_def)
  have one: "length (filter (\<lambda>x. target x = Max (target ` set plan3)) plan3) = 1"
    by (simp add: mx) (simp add: plan3_def example_row_def)
  from sequential_one_is_maximum [OF ne, of rng0] one mx
  obtain r where r: "r \<in> set plan3" "target r = 3"
    "\<forall>g'. sample_prods ''sequential'' plan3 1 g' = (Inr (Series r), plan3)"
    by auto
  from r(1,2) have "r = example_row 1 11 3" by (auto simp: plan3_def example_row_def)
  with ne one r(3) show ?thesis by simp
qed

section \<open>Weighted sampling\<close>



















lemma draw_max_pick: "draw_max k plan (g\<lparr>rng_pick := cs\<rparr>) = draw_max k plan g"
  by (simp add: draw_max_def cong: sum.case_cong)





























section \<open>Negatives of zero total weight\<close>

lemma col_weight_const:
  assumes "\<forall>r \<in> set f. weight r = Some w"
  shows "col_weight f = Inr (map (\<lambda>_. w) f)"
proof -
  from assms have "those (map weight f) = Some (map (\<lambda>_. w) f)"
    by (induction f) simp_all
  then show ?thesis by (simp add: col_weight_def)
qed

lemma neg_weights_const: "set (neg_weights (map (\<lambda>_. w) f)) \<subseteq> {0}"
proof (cases f)
  case Nil
  then show ?thesis by (simp add: neg_weights_def col_max_def)
next
  case (Cons a list)
  then have "set (map (\<lambda>_. w) f) = {w}" by auto
  then have "Max (set (map (\<lambda>_. w) f)) = w" by (simp only: Max_singleton)
  then have "col_max (map (\<lambda>_. w) f) = Some w"
    unfolding col_max_def using Cons by (simp only: map_is_Nil_conv) simp
  then show ?thesis by (auto simp: neg_weights_def)
qed

lemma sum_list_zeros: "set xs \<subseteq> {0::real} \<Longrightarrow> sum_list xs = 0"
  by (induction xs) simp_all

lemma df_sample_zero_weights:
  assumes "set ws \<subseteq> {0}"
  shows "df_sample f k (Some ws) cs = Inl (ValueError Zero_weight_sum)"
proof -
  from assms have "\<not> list_ex (\<lambda>w. w < 0) ws" by (auto simp: list_ex_iff)
  with sum_list_zeros [OF assms] show ?thesis by (simp add: df_sample_def)
qed

text \<open>
  Claim C8. Under \<open>"weighted"\<close> with \<open>n > 1\<close> and \<open>n\<close> different from the group size, once the
  positive row \<open>p\<close> is drawn: if all rows left after dropping \<open>p\<close> carry one and the same
  weight (they tie at their maximum), then every weight \<open>max - own\<close> of the negatives' draw
  is zero, nothing guards the draw, and the call ends in pandas' \<open>ValueError\<close> for weights
  that sum to zero, with the column \<open>"weight"\<close> already written to the frame.
\<close>

theorem weighted_many_zero_total_weight:
  assumes "1 < n" and "int (length plan) \<noteq> n"
    and "draw_positive (set_weight plan (noisy_weights plan g)) g = Inr [p]"
    and "\<forall>r \<in> set (filter (\<lambda>r. label r \<noteq> label p) (set_weight plan (noisy_weights plan g))).
           weight r = Some w"
  shows "\<exists>rws. col_weight (filter (\<lambda>r. label r \<noteq> label p)
                   (set_weight plan (noisy_weights plan g))) = Inr rws
           \<and> set (neg_weights rws) \<subseteq> {0}
           \<and> sample_prods ''weighted'' plan n g
               = (Inl (ValueError Zero_weight_sum), set_weight plan (noisy_weights plan g))"
proof -
  let ?plan = "set_weight plan (noisy_weights plan g)"
  let ?rest = "filter (\<lambda>r. label r \<noteq> label p) ?plan"
  let ?rws = "map (\<lambda>_. w) ?rest"
  have cw: "col_weight ?rest = Inr ?rws" using assms(4) by (rule col_weight_const)
  have zero: "set (neg_weights ?rws) \<subseteq> {0}" by (rule neg_weights_const)
  have "weighted_many ?plan n g = Inl (ValueError Zero_weight_sum)"
    by (simp add: weighted_many_def assms(3) cw df_sample_zero_weights [OF zero])
  with assms(1,2) have "sample_prods ''weighted'' plan n g
      = (Inl (ValueError Zero_weight_sum), ?plan)"
    by (simp add: sample_prods_def Let_def)
  with cw zero show ?thesis by blast
qed


theorem weighted_many_zero_total_weight_witness:
  "1 < (3::int) \<and> int (length plan5) \<noteq> 3
   \<and> draw_positive (set_weight plan5 (noisy_weights plan5 rng0)) rng0
       = Inr [(example_row 0 10 1)\<lparr>weight := Some 1\<rparr>]
   \<and> map weight (filter (\<lambda>r. label r \<noteq> label ((example_row 0 10 1)\<lparr>weight := Some 1\<rparr>))
                  (set_weight plan5 (noisy_weights plan5 rng0)))
       = [Some 1, Some 1, Some 1, Some 1]
   \<and> sample_prods ''weighted'' plan5 3 rng0
       = (Inl (ValueError Zero_weight_sum), set_weight plan5 (noisy_weights plan5 rng0))"
proof -
  have h1: "1 < (3::int)" by simp
  have h2: "int (length plan5) \<noteq> 3" by (simp add: plan5_def)
  have h3: "draw_positive (set_weight plan5 (noisy_weights plan5 rng0)) rng0
       = Inr [(example_row 0 10 1)\<lparr>weight := Some 1\<rparr>]" by code_simp
  have h4: "map weight (filter (\<lambda>r. label r \<noteq> label ((example_row 0 10 1)\<lparr>weight := Some 1\<rparr>))
                  (set_weight plan5 (noisy_weights plan5 rng0)))
       = [Some 1, Some 1, Some 1, Some 1]" by code_simp
  have h4': "\<forall>r \<in> set (filter (\<lambda>r. label r \<noteq> label ((example_row 0 10 1)\<lparr>weight := Some 1\<rparr>))
                  (set_weight plan5 (noisy_weights plan5 rng0))). weight r = Some 1"
  proof
    fix r
    assume "r \<in> set (filter (\<lambda>r. label r \<noteq> label ((example_row 0 10 1)\<lparr>weight := Some 1\<rparr>))
                  (set_weight plan5 (noisy_weights plan5 rng0)))"
    then have "weight r \<in> set (map weight (filter (\<lambda>r. label r \<noteq> label ((example_row 0 10 1)\<lparr>weight := Some 1\<rparr>))
                  (set_weight plan5 (noisy_weights plan5 rng0))))"
      by (simp only: set_map) (rule imageI)
    then show "weight r = Some 1" by (simp only: h4) simp
  qed
  from weighted_many_zero_total_weight [OF h1 h2 h3 h4'] h1 h2 h3 h4 show ?thesis by blast
qed

section \<open>A count equal to the group size\<close>

text \<open>
  Claim C3, amended. The test \<open>len(plan) == n\<close> stands in the branch \<open>n > 1\<close> only. There,
  for every strategy (recognised or not), the call skips sampling and returns the whole
  group in descending order of the target. For \<open>n = 1\<close> on a group of one row nothing is
  skipped: under \<open>"random"\<close> and \<open>"sequential"\<close> the call samples and returns that row as a
  Series. (Under \<open>"weighted"\<close> the draw of seven rows is attempted on the single row.)
\<close>

theorem full_group_or_single_row:
  "(1 < n \<and> int (length plan) = n \<longrightarrow>
      (\<exists>prods. sample_prods strategy plan n g = (Inr (DataFrame prods), plan)
         \<and> length prods = length plan
         \<and> mset (map cells prods) = mset (map cells plan)
         \<and> sorted_wrt (\<lambda>a b. target b \<le> target a) prods))
   \<and> (strategy = ''random'' \<or> strategy = ''sequential'' \<longrightarrow>
        sample_prods strategy [r] 1 g = (Inr (Series r), [r]))"
proof (intro conjI impI)
  assume n: "1 < n \<and> int (length plan) = n"
  then have "sample_prods strategy plan n g = (Inr (DataFrame (sort_by_target plan)), plan)"
    by (simp add: sample_prods_def)
  moreover have "length (sort_by_target plan) = length plan"
    by (simp add: sort_by_target_def length_sort_desc)
  moreover have "mset (map cells (sort_by_target plan)) = mset (map cells plan)"
    unfolding sort_by_target_def by (rule cells_sort_desc) simp
  ultimately show "\<exists>prods. sample_prods strategy plan n g = (Inr (DataFrame prods), plan)
         \<and> length prods = length plan
         \<and> mset (map cells prods) = mset (map cells plan)
         \<and> sorted_wrt (\<lambda>a b. target b \<le> target a) prods"
    using sorted_by_target [of plan] by blast
next
  assume "strategy = ''random'' \<or> strategy = ''sequential''"
  then show "sample_prods strategy [r] 1 g = (Inr (Series r), [r])"
  proof
    assume "strategy = ''random''"
    then show ?thesis
      using df_sample_single [of r "rng_draw g"] by (simp add: sample_prods_def)
  next
    assume "strategy = ''sequential''"
    then show ?thesis
      using df_sample_single [of r "rng_pick g"] keep_max_own [of "[r]" target]
      by (simp add: sample_prods_def sequential_one_def)
  qed
qed

theorem full_group_or_single_row_witness:
  "(1 < (3::int) \<and> int (length plan3) = 3)
   \<and> (\<exists>prods. sample_prods ''weighted'' plan3 3 rng0 = (Inr (DataFrame prods), plan3)
         \<and> length prods = length plan3
         \<and> mset (map cells prods) = mset (map cells plan3)
         \<and> sorted_wrt (\<lambda>a b. target b \<le> target a) prods)
   \<and> (''random'' = ''random'' \<or> ''random'' = ''sequential'')
   \<and> sample_prods ''random'' [example_row 0 10 1] 1 rng0
       = (Inr (Series (example_row 0 10 1)), [example_row 0 10 1])"
proof -
  have h: "1 < (3::int) \<and> int (length plan3) = 3" by (simp add: plan3_def)
  have m: "''random'' = ''random'' \<or> ''random'' = ''sequential''" by simp
  from full_group_or_single_row [where n = 3 and plan = plan3 and strategy = "''weighted''" and g = rng0] h
  have "\<exists>prods. sample_prods ''weighted'' plan3 3 rng0 = (Inr (DataFrame prods), plan3)
         \<and> length prods = length plan3
         \<and> mset (map cells prods) = mset (map cells plan3)
         \<and> sorted_wrt (\<lambda>a b. target b \<le> target a) prods" by blast
  moreover from full_group_or_single_row [where strategy = "''random''" and r = "example_row 0 10 1" and g = rng0] m
  have "sample_prods ''random'' [example_row 0 10 1] 1 rng0
       = (Inr (Series (example_row 0 10 1)), [example_row 0 10 1])" by blast
  ultimately show ?thesis using h m by blast
qed

text \<open>
  The claim as stated fails under \<open>"weighted"\<close> for \<open>n = 1\<close> on a group of one row: the count
  equals the group size, and the call raises instead of returning the group.
\<close>

theorem single_row_weighted_counterexample:
  "int (length plan1) = 1
   \<and> fst (sample_prods ''weighted'' plan1 1 rng0) = Inl (ValueError Larger_than_population)
   \<and> fst (sample_prods ''weighted'' plan1 1 rng0) \<noteq> Inr (DataFrame (sort_by_target plan1))
   \<and> fst (sample_prods ''weighted'' plan1 1 rng0) \<noteq> Inr (Series (example_row 0 10 1))"
proof -
  have "sample_prods ''weighted'' plan1 1 rng0
     = (Inl (ValueError Larger_than_population), [(example_row 0 10 1)\<lparr>weight := Some 1\<rparr>])"
    by code_simp
  then show ?thesis by (simp add: plan1_def)
qed

section \<open>Construction and the validation pass\<close>

lemma store_groups_frame:
  "variant (store_groups gs ds) = variant ds
   \<and> meta (store_groups gs ds) = meta ds
   \<and> warnings (store_groups gs ds) = warnings ds
   \<and> next_addr ds \<le> next_addr (store_groups gs ds)
   \<and> (\<forall>a < next_addr ds. heap (store_groups gs ds) a = heap ds a)"
proof (induction gs arbitrary: ds)
  case Nil
  show ?case by simp
next
  case (Cons kf gs)
  let ?ds = "(snd (new_frame (snd kf) ds))\<lparr>meta_access_by_plan_id :=
              meta_access_by_plan_id (snd (new_frame (snd kf) ds))
                @ [(fst kf, fst (new_frame (snd kf) ds))]\<rparr>"
  have step: "store_groups (kf # gs) ds = store_groups gs ?ds"
    by (simp add: Let_def)
  have base: "variant ?ds = variant ds" "meta ?ds = meta ds" "warnings ?ds = warnings ds"
    "next_addr ?ds = Suc (next_addr ds)" "\<forall>a < next_addr ds. heap ?ds a = heap ds a"
    by (simp_all add: new_frame_def)
  from Cons.IH [of ?ds] base show ?case
    by (simp only: step) (metis Suc_leD less_Suc_eq)
qed

lemma drop_missing_labels:
  assumes "distinct (map label f)"
  shows "filter (\<lambda>r. label r \<notin> set (map label (filter Q f))) f = filter (\<lambda>r. \<not> Q r) f"
proof (rule filter_cong [OF refl])
  fix r
  assume r: "r \<in> set f"
  from assms have inj: "inj_on label (set f)" by (simp add: distinct_map)
  show "(label r \<notin> set (map label (filter Q f))) = (\<not> Q r)"
  proof
    assume "label r \<notin> set (map label (filter Q f))"
    with r show "\<not> Q r" by auto
  next
    assume nq: "\<not> Q r"
    show "label r \<notin> set (map label (filter Q f))"
    proof
      assume "label r \<in> set (map label (filter Q f))"
      then obtain x where x: "x \<in> set f" "Q x" "label x = label r" by auto
      with inj r have "x = r" by (auto dest: inj_onD)
      with x nq show False by simp
    qed
  qed
qed

lemma len_warnings: "len (ds\<lparr>warnings := w\<rparr>) = len ds"
  by (simp add: len_def split: variant.split)

lemma init_heap_meta:
  assumes "strategy \<in> set [''weighted'', ''random'', ''sequential'']"
  shows "\<exists>ds3. init v meta_frame strategy dsize isfile = Inr (snd (verify_meta_data isfile ds3))
            \<and> variant ds3 = v \<and> heap ds3 (meta ds3) = meta_frame \<and> warnings ds3 = []"
proof -
  let ?ds0 = "\<lparr>variant = v, heap = (\<lambda>_. []), next_addr = 0, meta = 0,
               meta_access_by_plan_id = [], unique_plan_ids = [],
               sampling_method = strategy, discrim_size = dsize, warnings = []\<rparr>"
  let ?ds1 = "(snd (new_frame meta_frame ?ds0))\<lparr>meta := fst (new_frame meta_frame ?ds0)\<rparr>"
  let ?ds2 = "store_groups (groupby_plan_id meta_frame) ?ds1"
  let ?ds3 = "?ds2\<lparr>unique_plan_ids := unique (map plan_id meta_frame)\<rparr>"
  have one: "variant ?ds1 = v" "meta ?ds1 = 0" "warnings ?ds1 = []" "next_addr ?ds1 = Suc 0"
    "heap ?ds1 0 = meta_frame"
    by (simp_all add: new_frame_def)
  from store_groups_frame [of "groupby_plan_id meta_frame" ?ds1] one
  have two: "variant ?ds2 = v" "meta ?ds2 = 0" "warnings ?ds2 = []" "heap ?ds2 0 = meta_frame"
    by simp_all
  from assms have "init v meta_frame strategy dsize isfile = Inr (snd (verify_meta_data isfile ?ds3))"
    by (simp only: init_def Let_def) simp
  moreover from two have "variant ?ds3 = v \<and> heap ?ds3 (meta ?ds3) = meta_frame \<and> warnings ?ds3 = []"
    by simp
  ultimately show ?thesis by blast
qed

text \<open>
  Claim C9, amended. For the two classes whose length is the number of metadata rows
  (\<open>SemanticMatchingDataset\<close>, \<open>SemanticMatchingEvalDataset\<close>), built from a table with
  distinct index labels in which exactly one row lacks its image: construction succeeds,
  \<open>self.meta\<close> is the table without that row (relabelled), one warning reports the counts
  \<open>N\<close> and \<open>N - 1\<close>, and the length of the dataset is \<open>N - 1\<close>.
\<close>

theorem one_missing_image_row_count:
  assumes "v = SemanticMatchingDataset \<or> v = SemanticMatchingEvalDataset"
    and "strategy \<in> set [''weighted'', ''random'', ''sequential'']"
    and "distinct (map label meta_frame)"
    and "length (filter (\<lambda>r. \<not> isfile (prod_id r)) meta_frame) = 1"
  shows "\<exists>ds. init v meta_frame strategy dsize isfile = Inr ds
           \<and> heap ds (meta ds) = reset_index (filter (\<lambda>r. isfile (prod_id r)) meta_frame)
           \<and> len ds = length meta_frame - 1
           \<and> warnings ds = [(length meta_frame, length meta_frame - 1)]"
proof -
  from init_heap_meta [OF assms(2)] obtain ds3 where
    i: "init v meta_frame strategy dsize isfile = Inr (snd (verify_meta_data isfile ds3))"
    and v: "variant ds3 = v" and h: "heap ds3 (meta ds3) = meta_frame" and w: "warnings ds3 = []"
    by blast
  let ?kept = "reset_index (filter (\<lambda>r. isfile (prod_id r)) meta_frame)"
  let ?ds = "snd (verify_meta_data isfile ds3)"
  have kept: "filter (\<lambda>r. label r \<notin> set (map label (filter (\<lambda>r. \<not> isfile (prod_id r)) meta_frame)))
      meta_frame = filter (\<lambda>r. isfile (prod_id r)) meta_frame"
    using drop_missing_labels [OF assms(3), of "\<lambda>r. \<not> isfile (prod_id r)"] by simp
  have before: "len ds3 = length meta_frame"
    using assms(1) v h by (auto simp: len_def)
  have count: "length (filter (\<lambda>r. isfile (prod_id r)) meta_frame) = length meta_frame - 1"
    using sum_length_filter_compl [of "\<lambda>r. isfile (prod_id r)" meta_frame] assms(4) by simp
  have ne: "filter (\<lambda>r. \<not> isfile (prod_id r)) meta_frame \<noteq> []"
    using assms(4) by auto
  have m: "heap ?ds (meta ?ds) = ?kept"
    using ne h kept by (simp add: verify_meta_data_def Let_def new_frame_def)
  have vd: "variant ?ds = v"
    using ne h v by (simp add: verify_meta_data_def Let_def new_frame_def)
  have after: "len ?ds = length meta_frame - 1"
    using assms(1) vd m count by (auto simp: len_def length_reset_index)
  have "warnings ?ds = [(len ds3, len ?ds)]"
    using ne h w by (simp add: verify_meta_data_def Let_def new_frame_def len_warnings)
  with before after have "warnings ?ds = [(length meta_frame, length meta_frame - 1)]" by simp
  with i m after show ?thesis by blast
qed

theorem one_missing_image_row_count_witness:
  "(SemanticMatchingDataset = SemanticMatchingDataset
      \<or> SemanticMatchingDataset = SemanticMatchingEvalDataset)
   \<and> ''random'' \<in> set [''weighted'', ''random'', ''sequential'']
   \<and> distinct (map label plan3)
   \<and> length (filter (\<lambda>r. \<not> all_but_11 (prod_id r)) plan3) = 1
   \<and> map_sum id len (init SemanticMatchingDataset plan3 ''random'' 30 all_but_11) = Inr 2
   \<and> map_sum id warnings (init SemanticMatchingDataset plan3 ''random'' 30 all_but_11)
       = Inr [(3, 2)]"
proof -
  have h1: "SemanticMatchingDataset = SemanticMatchingDataset
      \<or> SemanticMatchingDataset = SemanticMatchingEvalDataset" by simp
  have h2: "''random'' \<in> set [''weighted'', ''random'', ''sequential'']" by simp
  have h3: "distinct (map label plan3)" by (simp add: plan3_def example_row_def)
  have h4: "length (filter (\<lambda>r. \<not> all_but_11 (prod_id r)) plan3) = 1"
    by (simp add: plan3_def example_row_def all_but_11_def)
  have n: "length plan3 = 3" by (simp add: plan3_def)
  from one_missing_image_row_count [OF h1 h2 h3 h4, of 30]
  obtain ds where "init SemanticMatchingDataset plan3 ''random'' 30 all_but_11 = Inr ds"
    "len ds = 2" "warnings ds = [(3, 2)]"
    by (auto simp: n)
  then show ?thesis using h1 h2 h3 h4 by simp
qed

text \<open>
  The claim as stated fails for the three discrimination classes, whose length is the
  number of plan ids, taken before the validation pass: a table of three rows of one plan,
  one of them without image, gives a dataset of length 1, and the warning reports the counts
  1 and 1.
\<close>

theorem discrim_length_counterexample:
  "length plan3 = 3
   \<and> length (filter (all_but_11 \<circ> prod_id) plan3) = 2
   \<and> map_sum id len (init PreferenceDiscrimDataset plan3 ''weighted'' 30 all_but_11) = Inr 1
   \<and> map_sum id warnings (init PreferenceDiscrimDataset plan3 ''weighted'' 30 all_but_11)
       = Inr [(1, 1)]"
  by code_simp

text \<open>
  Claim C7, at a failing input. \<open>__init__\<close> builds the grouped index (line 107) before
  \<open>verify_meta_data\<close> runs (line 118), and the pass rebinds \<open>self.meta\<close> only. For the three
  rows of \<open>plan3\<close> with the image of product 11 missing, \<open>self.meta\<close> loses the row, the
  index keeps it, and \<open>__getitem__\<close> under \<open>"sequential"\<close> samples it and fails to load its
  image.
\<close>

theorem missing_image_row_stays_in_index:
  "\<not> all_but_11 11
   \<and> map_sum id (map prod_id \<circ> group_of 1)
        (init SemanticMatchingDataset plan3 ''sequential'' 30 all_but_11) = Inr [10, 11, 12]
   \<and> map_sum id index_prod_ids
        (init SemanticMatchingDataset plan3 ''sequential'' 30 all_but_11) = Inr [10, 11, 12]
   \<and> fst (first_item all_but_11
             (init SemanticMatchingDataset plan3 ''sequential'' 30 all_but_11) 1 rng0)
       = Inl Cv2Error"
  by code_simp

section \<open>The column written to the caller's frame\<close>

text \<open>
  Claim C4, at a failing input. \<open>SemanticMatchingDataset.__getitem__\<close> hands the group object
  of the index itself to \<open>sample_prods\<close>, whose weighted branch assigns to \<open>plan["weight"]\<close>.
  For the seven rows of \<open>plan7\<close> under \<open>"weighted"\<close>: before the call the group of plan 1 in
  the index has no weights, the call returns the image of product 16, and after the call the
  group in the index carries the weights 1 to 7. The same call on a
  \<open>PreferenceDiscrimDataset\<close>, which samples from a copy made by \<open>reset_index\<close>, leaves the
  group in the index without weights.
\<close>

theorem shared_group_gets_weight_column:
  "map_sum id (map weight \<circ> group_of 1)
        (init SemanticMatchingDataset plan7 ''weighted'' 30 every_image)
       = Inr [None, None, None, None, None, None, None]
   \<and> fst (first_item every_image
             (init SemanticMatchingDataset plan7 ''weighted'' 30 every_image) 1 rng0)
       = Inr [16]
   \<and> map_sum id (map weight \<circ> group_of 1)
        (snd (first_item every_image
               (init SemanticMatchingDataset plan7 ''weighted'' 30 every_image) 1 rng0))
       = Inr [Some 1, Some 2, Some 3, Some 4, Some 5, Some 6, Some 7]
   \<and> map_sum id (map weight \<circ> group_of 1)
        (snd (first_item every_image
               (init PreferenceDiscrimDataset plan7 ''weighted'' 3 every_image) 1 rng0))
       = Inr [None, None, None, None, None, None, None]"
  by code_simp


section \<open>Counts that match no branch, and the whole group\<close>

text \<open>
  Claim C10. A count that is neither \<open>-1\<close>, nor \<open>1\<close>, nor greater than \<open>1\<close> (that is, \<open>0\<close> or at
  most \<open>-2\<close>) matches no branch of \<open>sample_prods\<close>: the call returns \<open>None\<close>, raises nothing,
  and leaves the frame it was given as it was, whatever the strategy.
\<close>

theorem sample_prods_none:
  assumes "n = 0 \<or> n \<le> - 2"
  shows "sample_prods strategy plan n g = (Inr NoneValue, plan)"
  using assms by (cases "n = 0") (simp_all add: sample_prods_def)

theorem sample_prods_none_witness:
  "((0::int) = 0 \<or> (0::int) \<le> - 2)
   \<and> sample_prods ''weighted'' [] 0 \<lparr>rng_uniform = (\<lambda>_. 0), rng_draw = [], rng_pick = [], rng_negs = []\<rparr>
       = (Inr NoneValue, [])
   \<and> ((- 3::int) = 0 \<or> (- 3::int) \<le> - 2)
   \<and> sample_prods ''random'' [] (- 3) \<lparr>rng_uniform = (\<lambda>_. 0), rng_draw = [], rng_pick = [], rng_negs = []\<rparr>
       = (Inr NoneValue, [])"
  using sample_prods_none [of 0 "''weighted''" "[]"] sample_prods_none [of "- 3" "''random''" "[]"]
  by simp

text \<open>
  Claim C5. For every group and every strategy, \<open>sample_prods\<close> with \<open>n = -1\<close> returns a frame
  with exactly the rows of the group (the same cells, as many rows), in descending order of
  the target column, under the fresh labels \<open>0, 1, ...\<close> of \<open>ignore_index=True\<close>.
\<close>

theorem sample_prods_all:
  "\<exists>prods. sample_prods strategy plan (- 1) g = (Inr (DataFrame prods), plan)
     \<and> length prods = length plan
     \<and> mset (map cells prods) = mset (map cells plan)
     \<and> sorted_wrt (\<lambda>a b. target b \<le> target a) prods
     \<and> map label prods = map int [0..<length plan]"
proof -
  have "sample_prods strategy plan (- 1) g = (Inr (DataFrame (sort_by_target plan)), plan)"
    by (simp add: sample_prods_def)
  moreover have "length (sort_by_target plan) = length plan"
    by (simp add: sort_by_target_def length_sort_desc)
  moreover have "mset (map cells (sort_by_target plan)) = mset (map cells plan)"
    unfolding sort_by_target_def by (rule cells_sort_desc) simp
  moreover have "map label (sort_by_target plan) = map int [0..<length plan]"
    by (simp add: sort_by_target_def sort_desc_def label_reset_index)
  ultimately show ?thesis using sorted_by_target [of plan] by blast
qed

end
